theory Spec2Isabelle
  imports Main
begin

section \<open>The game record of \<open>src/actions/game.ts\<close>\<close>

text \<open>
  The server actions of the rock-paper-scissors game keep one row per game in the table
  \<open>games\<close> and answer every request by reading that row and, at most once, updating it.
  The three string-literal types of the interface \<open>Game\<close> are datatypes; a column that
  may be \<open>null\<close> is an \<open>option\<close>.
\<close>

datatype choice = rock | paper | scissors

datatype status = waiting | playing | finished

datatype winner = player1 | player2 | draw

text \<open>
  A row of the table. The column \<open>id\<close> is the key of the table below and is not
  repeated in the row: a row selected by \<open>.eq("id", gameId)\<close> has \<open>id = gameId\<close>.
  The scores are JavaScript numbers; they are taken to have integer values and are
  integers here, added as JavaScript adds them (\<open>number_add\<close> below).
\<close>

record Game =
  player1_id :: "string option"
  player2_id :: "string option"
  player1_choice :: "choice option"
  player2_choice :: "choice option"
  player1_score :: int
  player2_score :: int
  last_result :: "string option"
  status :: status

section \<open>The helper \<open>determineWinner\<close>\<close>

text \<open>
  Lines 32 to 49. \<open>!player1Choice || !player2Choice\<close> holds exactly when one of the two
  is \<open>null\<close>: the three choices are non-empty strings, hence truthy.
\<close>

fun determineWinner :: "choice option \<Rightarrow> choice option \<Rightarrow> winner option" where
  "determineWinner None _ = None"
| "determineWinner _ None = None"
| "determineWinner (Some player1Choice) (Some player2Choice) =
     (if player1Choice = player2Choice then Some draw
      else if (player1Choice = rock \<and> player2Choice = scissors) \<or>
              (player1Choice = paper \<and> player2Choice = rock) \<or>
              (player1Choice = scissors \<and> player2Choice = paper)
      then Some player1
      else Some player2)"

text \<open>
  The beats-relation in the words of the specification, to compare the code with:
  rock beats scissors, scissors beats paper, paper beats rock.
\<close>

fun beats_spec :: "choice \<Rightarrow> choice \<Rightarrow> bool" where
  "beats_spec rock scissors = True"
| "beats_spec scissors paper = True"
| "beats_spec paper rock = True"
| "beats_spec _ _ = False"

section \<open>JavaScript numbers\<close>

text \<open>
  A \<open>number\<close> is an IEEE 754 binary64 value: it has 53 significant bits, and the sum of
  two numbers is the exact sum rounded to the nearest number, a tie going to the one
  whose last significant bit is 0. \<open>to_number\<close> rounds an integer so: an integer of
  \<open>bit_length\<close> up to 53 is a number, and one of \<open>bit_length\<close> \<open>53 + k\<close> is rounded
  to a multiple of \<open>2 ^ k\<close>. The overflow to \<open>Infinity\<close> from \<open>2 ^ 1024\<close> on is left
  out: a score read from the store is a finite number, and adding 1 to a finite number
  does not overflow.
\<close>

fun bit_length :: "nat \<Rightarrow> nat" where
  "bit_length n = (if n = 0 then 0 else Suc (bit_length (n div 2)))"

declare bit_length.simps [simp del]

definition to_number :: "int \<Rightarrow> int" where
  "to_number x =
     (let m = nat \<bar>x\<bar>;
          q = 2 ^ (bit_length m - 53);
          down = m div q * q;
          rest = m mod q;
          nearest = (if 2 * rest < q \<or> (2 * rest = q \<and> even (m div q))
                     then down else down + q)
      in sgn x * int nearest)"

text \<open>\<open>x + y\<close> on two numbers\<close>

definition number_add :: "int \<Rightarrow> int \<Rightarrow> int" where
  "number_add x y = to_number (x + y)"

section \<open>The table \<open>games\<close>\<close>

text \<open>
  The table is a map from the \<open>id\<close> column to the row. A select that fails is
  answered like a missing row (\<open>fetchError || !game\<close>). An insert fails under an \<open>id\<close>
  that is taken, and an update with \<open>.single()\<close> fails on no row. Whether the store
  carries out the update of \<open>makeMove\<close> and of \<open>resetGame\<close>, which nothing in the table
  decides, is an argument of these actions: \<open>updateError\<close> says that the store has
  answered the update with an error, and has left the table as it was.
\<close>

type_synonym games = "string \<rightharpoonup> Game"

text \<open>
  \<open>Partial<Game>\<close>, the argument of \<open>.update(...)\<close>: a column that is absent is left as
  it is, a column that is present is overwritten, also with \<open>null\<close>
  (\<open>Some None\<close> below).
\<close>

record Partial_Game =
  upd_player1_id :: "string option option"
  upd_player2_id :: "string option option"
  upd_player1_choice :: "choice option option"
  upd_player2_choice :: "choice option option"
  upd_player1_score :: "int option"
  upd_player2_score :: "int option"
  upd_last_result :: "string option option"
  upd_status :: "status option"

text \<open>\<open>const updateData: Partial<Game> = {}\<close>\<close>

definition no_update :: Partial_Game where
  "no_update = \<lparr>upd_player1_id = None, upd_player2_id = None,
     upd_player1_choice = None, upd_player2_choice = None,
     upd_player1_score = None, upd_player2_score = None,
     upd_last_result = None, upd_status = None\<rparr>"

definition assign :: "'a option \<Rightarrow> 'a \<Rightarrow> 'a" where
  "assign new old = (case new of None \<Rightarrow> old | Some v \<Rightarrow> v)"

definition apply_update :: "Partial_Game \<Rightarrow> Game \<Rightarrow> Game" where
  "apply_update u row = row
     \<lparr>player1_id := assign (upd_player1_id u) (player1_id row),
      player2_id := assign (upd_player2_id u) (player2_id row),
      player1_choice := assign (upd_player1_choice u) (player1_choice row),
      player2_choice := assign (upd_player2_choice u) (player2_choice row),
      player1_score := assign (upd_player1_score u) (player1_score row),
      player2_score := assign (upd_player2_score u) (player2_score row),
      last_result := assign (upd_last_result u) (last_result row),
      status := assign (upd_status u) (status row)\<rparr>"

text \<open>
  \<open>.update(u).eq("id", gameId)\<close>: every row with that id is updated; that there is
  none is not an error.
\<close>

definition update_eq_id :: "games \<Rightarrow> string \<Rightarrow> Partial_Game \<Rightarrow> games" where
  "update_eq_id db gameId u =
     (case db gameId of
        None \<Rightarrow> db
      | Some row \<Rightarrow> db(gameId \<mapsto> apply_update u row))"

text \<open>
  The results of the actions. The \<open>error\<close> strings of the source are
  \<open>"Game not found"\<close>, \<open>"Game is already full"\<close> and
  \<open>"Invalid player for this game"\<close>; \<open>Store_error\<close> stands for the
  \<open>error.message\<close> of a statement the store refused.
\<close>

datatype error = Game_not_found | Game_is_already_full | Invalid_player | Store_error

text \<open>\<open>{ gameId, playerId, playerNumber }\<close> and \<open>{ success: true }\<close>\<close>

record joined =
  joined_gameId :: string
  joined_playerId :: string
  joined_playerNumber :: nat

datatype ok = success

text \<open>
  Every action that changes a row first selects it and then, from what it has read,
  either returns or issues one update. \<open>next_step\<close> is what an action has decided
  after its select.
\<close>

datatype 'r next_step = Return 'r | Update Partial_Game

text \<open>
  JavaScript's truthiness of a \<open>string | null\<close>, as in \<open>if (game.player2_id)\<close>:
  \<open>null\<close> and the empty string are falsy.
\<close>

definition truthy :: "string option \<Rightarrow> bool" where
  "truthy v = (case v of None \<Rightarrow> False | Some s \<Rightarrow> s \<noteq> [])"

section \<open>\<open>createGame\<close>\<close>

text \<open>
  Modelled from the spec: the column defaults of the table \<open>games\<close>, whose declaration
  (the database schema) is not in the source. \<open>createGame\<close> inserts only
  \<open>player1_id\<close> and \<open>status\<close>; the specification says of the new match: zeroed
  scores, no choices, and (by the data model) no second participant and no result.
\<close>

definition column_defaults :: Game where
  "column_defaults = \<lparr>player1_id = None, player2_id = None,
     player1_choice = None, player2_choice = None,
     player1_score = 0, player2_score = 0,
     last_result = None, status = waiting\<rparr>"

text \<open>
  Lines 51 to 64. \<open>newId\<close> is the id the store gives the new row; the insert is refused
  when a row has it already.
\<close>

definition createGame :: "games \<Rightarrow> string \<Rightarrow> string \<Rightarrow> games \<times> (error + joined)" where
  "createGame db newId userId =
     (case db newId of
        Some _ \<Rightarrow> (db, Inl Store_error)
      | None \<Rightarrow>
          (db(newId \<mapsto> column_defaults\<lparr>player1_id := Some userId, status := waiting\<rparr>),
           Inr \<lparr>joined_gameId = newId, joined_playerId = userId, joined_playerNumber = 1\<rparr>))"

section \<open>\<open>joinGame\<close>\<close>

text \<open>Lines 67 to 80: the select and the decision taken on the row read.\<close>

definition joinGame_selected :: "Game option \<Rightarrow> string \<Rightarrow> string \<Rightarrow> (error + joined) next_step" where
  "joinGame_selected fetched gameId userId =
     (case fetched of
        None \<Rightarrow> Return (Inl Game_not_found)
      | Some game \<Rightarrow>
          if player1_id game = Some userId \<or> player2_id game = Some userId
          then Return (Inr \<lparr>joined_gameId = gameId, joined_playerId = userId,
                 joined_playerNumber = (if player1_id game = Some userId then 1 else 2)\<rparr>)
          else if truthy (player2_id game) then Return (Inl Game_is_already_full)
          else Update (no_update\<lparr>upd_player2_id := Some (Some userId),
                 upd_status := Some playing\<rparr>))"

text \<open>
  Lines 82 to 94: \<open>.update(...).eq("id", gameId).select().single()\<close> fails when there
  is no row to return.
\<close>

definition joinGame_finish ::
  "games \<Rightarrow> string \<Rightarrow> string \<Rightarrow> (error + joined) next_step \<Rightarrow> games \<times> (error + joined)" where
  "joinGame_finish db gameId userId step =
     (case step of
        Return r \<Rightarrow> (db, r)
      | Update u \<Rightarrow>
          (case db gameId of
             None \<Rightarrow> (db, Inl Store_error)
           | Some _ \<Rightarrow>
               (update_eq_id db gameId u,
                Inr \<lparr>joined_gameId = gameId, joined_playerId = userId,
                  joined_playerNumber = 2\<rparr>)))"

definition joinGame :: "games \<Rightarrow> string \<Rightarrow> string \<Rightarrow> games \<times> (error + joined)" where
  "joinGame db gameId userId =
     joinGame_finish db gameId userId (joinGame_selected (db gameId) gameId userId)"

section \<open>\<open>makeMove\<close>\<close>

text \<open>
  Lines 116 to 136, with \<open>updateData\<close> as lines 105 to 114 left it. The two current
  choices are truthy exactly when they are not \<open>null\<close>.
\<close>

definition makeMove_resolve :: "Game \<Rightarrow> choice \<Rightarrow> bool \<Rightarrow> Partial_Game \<Rightarrow> Partial_Game" where
  "makeMove_resolve game choice isPlayer1 updateData =
     (let player1CurrentChoice = (if isPlayer1 then Some choice else player1_choice game);
          player2CurrentChoice = (if \<not> isPlayer1 then Some choice else player2_choice game)
      in if player1CurrentChoice \<noteq> None \<and> player2CurrentChoice \<noteq> None
         then
           (let winner = determineWinner player1CurrentChoice player2CurrentChoice;
                scored =
                  (if winner = Some player1
                   then updateData\<lparr>upd_player1_score := Some (number_add (player1_score game) 1),
                          upd_last_result := Some (Some ''Player 1 wins this round!'')\<rparr>
                   else if winner = Some player2
                   then updateData\<lparr>upd_player2_score := Some (number_add (player2_score game) 1),
                          upd_last_result := Some (Some ''Player 2 wins this round!'')\<rparr>
                   else updateData\<lparr>upd_last_result := Some (Some ''It's a draw!'')\<rparr>)
            in scored\<lparr>upd_player1_choice := Some None, upd_player2_choice := Some None\<rparr>)
         else updateData\<lparr>upd_last_result := Some None\<rparr>)"

text \<open>Lines 98 to 114, then the lines above.\<close>

definition makeMove_selected :: "Game option \<Rightarrow> string \<Rightarrow> choice \<Rightarrow> (error + ok) next_step" where
  "makeMove_selected fetched playerId choice =
     (case fetched of
        None \<Rightarrow> Return (Inl Game_not_found)
      | Some game \<Rightarrow>
          if player1_id game = Some playerId
          then Update (makeMove_resolve game choice True
                 (no_update\<lparr>upd_player1_choice := Some (Some choice)\<rparr>))
          else if player2_id game = Some playerId
          then Update (makeMove_resolve game choice False
                 (no_update\<lparr>upd_player2_choice := Some (Some choice)\<rparr>))
          else Return (Inl Invalid_player))"

text \<open>
  Lines 138 to 145: the one update, keyed by the id, and the return of
  \<open>updateError.message\<close> when the store answers it with an error.
\<close>

definition makeMove_finish ::
  "games \<Rightarrow> bool \<Rightarrow> string \<Rightarrow> (error + ok) next_step \<Rightarrow> games \<times> (error + ok)" where
  "makeMove_finish db updateError gameId step =
     (case step of
        Return r \<Rightarrow> (db, r)
      | Update u \<Rightarrow>
          if updateError then (db, Inl Store_error)
          else (update_eq_id db gameId u, Inr success))"

definition makeMove ::
  "games \<Rightarrow> bool \<Rightarrow> string \<Rightarrow> string \<Rightarrow> choice \<Rightarrow> games \<times> (error + ok)" where
  "makeMove db updateError gameId playerId choice =
     makeMove_finish db updateError gameId (makeMove_selected (db gameId) playerId choice)"

section \<open>\<open>getGameState\<close> and \<open>resetGame\<close>\<close>

definition getGameState :: "games \<Rightarrow> string \<Rightarrow> error + Game" where
  "getGameState db gameId =
     (case db gameId of None \<Rightarrow> Inl Game_not_found | Some game \<Rightarrow> Inr game)"

text \<open>Lines 159 to 165, and the columns of the update of lines 168 to 175.\<close>

definition resetGame_selected :: "Game option \<Rightarrow> (error + ok) next_step" where
  "resetGame_selected fetched =
     (case fetched of
        None \<Rightarrow> Return (Inl Game_not_found)
      | Some game \<Rightarrow>
          Update (no_update\<lparr>upd_player1_choice := Some None,
            upd_player2_choice := Some None,
            upd_player1_score := Some 0,
            upd_player2_score := Some 0,
            upd_last_result := Some None,
            upd_status := Some (if truthy (player2_id game) then playing else waiting)\<rparr>))"

text \<open>Lines 166 to 183: the update, and the return when the store answers it with an error.\<close>

definition resetGame :: "games \<Rightarrow> bool \<Rightarrow> string \<Rightarrow> games \<times> (error + ok)" where
  "resetGame db updateError gameId =
     (case resetGame_selected (db gameId) of
        Return r \<Rightarrow> (db, r)
      | Update u \<Rightarrow>
          if updateError then (db, Inl Store_error)
          else (update_eq_id db gameId u, Inr success))"

section \<open>Sequences of moves and the state of a round\<close>

text \<open>
  Calls of \<open>makeMove\<close>, one after the other: each call runs to its end before the
  next one starts. A call is its arguments, with the store's answer to its update first.
\<close>

fun makeMoves :: "games \<Rightarrow> (bool \<times> string \<times> string \<times> choice) list \<Rightarrow> games" where
  "makeMoves db [] = db"
| "makeMoves db ((updateError, gameId, playerId, choice) # calls) =
     makeMoves (fst (makeMove db updateError gameId playerId choice)) calls"

text \<open>
  Both pending choices are set: the state that a completed round leaves behind only if
  it is not cleared.
\<close>

definition both_chosen :: "Game \<Rightarrow> bool" where
  "both_chosen game = (player1_choice game \<noteq> None \<and> player2_choice game \<noteq> None)"

section \<open>Two calls of \<open>joinGame\<close> at once\<close>

text \<open>
  A server action awaits its select and then its update, and another request can be
  served between the two. A call of \<open>joinGame\<close> is therefore two steps: the select
  with the decision of lines 67 to 80, and the rest. \<open>joinGame_advance\<close> runs the next
  step of one call; a schedule says which of two callers moves next.
\<close>

datatype caller = First | Second

datatype progress = Not_started | Selected "(error + joined) next_step" | Finished "error + joined"

definition joinGame_advance :: "games \<Rightarrow> string \<Rightarrow> string \<Rightarrow> progress \<Rightarrow> games \<times> progress" where
  "joinGame_advance db gameId userId p =
     (case p of
        Not_started \<Rightarrow> (db, Selected (joinGame_selected (db gameId) gameId userId))
      | Selected step \<Rightarrow>
          (case joinGame_finish db gameId userId step of (db', r) \<Rightarrow> (db', Finished r))
      | Finished r \<Rightarrow> (db, Finished r))"

fun joinGame_interleaved ::
  "string \<Rightarrow> string \<Rightarrow> string \<Rightarrow> caller list \<Rightarrow> games \<times> progress \<times> progress \<Rightarrow>
   games \<times> progress \<times> progress" where
  "joinGame_interleaved gameId user1 user2 [] state = state"
| "joinGame_interleaved gameId user1 user2 (First # schedule) (db, p1, p2) =
     (case joinGame_advance db gameId user1 p1 of
        (db', p1') \<Rightarrow> joinGame_interleaved gameId user1 user2 schedule (db', p1', p2))"
| "joinGame_interleaved gameId user1 user2 (Second # schedule) (db, p1, p2) =
     (case joinGame_advance db gameId user2 p2 of
        (db', p2') \<Rightarrow> joinGame_interleaved gameId user1 user2 schedule (db', p1, p2'))"

section \<open>Two calls of \<open>makeMove\<close> at once\<close>

text \<open>
  \<open>makeMove\<close> awaits its select and its update in the same way. A caller is the player,
  the choice and the store's answer to the caller's update.
\<close>

datatype move_progress =
  Move_not_started | Move_selected "(error + ok) next_step" | Move_finished "error + ok"

definition makeMove_advance ::
  "games \<Rightarrow> string \<Rightarrow> string \<times> choice \<times> bool \<Rightarrow> move_progress \<Rightarrow> games \<times> move_progress" where
  "makeMove_advance db gameId call p =
     (case call of (playerId, choice, updateError) \<Rightarrow>
        (case p of
           Move_not_started \<Rightarrow>
             (db, Move_selected (makeMove_selected (db gameId) playerId choice))
         | Move_selected step \<Rightarrow>
             (case makeMove_finish db updateError gameId step of
                (db', r) \<Rightarrow> (db', Move_finished r))
         | Move_finished r \<Rightarrow> (db, Move_finished r)))"

fun makeMove_interleaved ::
  "string \<Rightarrow> string \<times> choice \<times> bool \<Rightarrow> string \<times> choice \<times> bool \<Rightarrow> caller list \<Rightarrow>
   games \<times> move_progress \<times> move_progress \<Rightarrow> games \<times> move_progress \<times> move_progress" where
  "makeMove_interleaved gameId call1 call2 [] state = state"
| "makeMove_interleaved gameId call1 call2 (First # schedule) (db, p1, p2) =
     (case makeMove_advance db gameId call1 p1 of
        (db', p1') \<Rightarrow> makeMove_interleaved gameId call1 call2 schedule (db', p1', p2))"
| "makeMove_interleaved gameId call1 call2 (Second # schedule) (db, p1, p2) =
     (case makeMove_advance db gameId call2 p2 of
        (db', p2') \<Rightarrow> makeMove_interleaved gameId call1 call2 schedule (db', p1, p2'))"

section \<open>Example tables\<close>

text \<open>
  One game \<open>''g''\<close> each: created and waiting for a second player; joined by
  \<open>''u2''\<close>; in a round where player 1 has chosen; after a round that player 1 has
  won; the same round with player 1 at a score of \<open>2 ^ 53\<close>; and joined by a requester
  whose identifier is the empty string.
\<close>

definition lobby_db :: games where
  "lobby_db = [''g'' \<mapsto> \<lparr>player1_id = Some ''u1'', player2_id = None,
     player1_choice = None, player2_choice = None,
     player1_score = 0, player2_score = 0,
     last_result = None, status = waiting\<rparr>]"

definition full_db :: games where
  "full_db = [''g'' \<mapsto> \<lparr>player1_id = Some ''u1'', player2_id = Some ''u2'',
     player1_choice = None, player2_choice = None,
     player1_score = 0, player2_score = 0,
     last_result = None, status = playing\<rparr>]"

definition round_db :: games where
  "round_db = [''g'' \<mapsto> \<lparr>player1_id = Some ''u1'', player2_id = Some ''u2'',
     player1_choice = Some rock, player2_choice = None,
     player1_score = 0, player2_score = 0,
     last_result = None, status = playing\<rparr>]"

definition stale_db :: games where
  "stale_db = [''g'' \<mapsto> \<lparr>player1_id = Some ''u1'', player2_id = Some ''u2'',
     player1_choice = None, player2_choice = None,
     player1_score = 1, player2_score = 0,
     last_result = Some ''Player 1 wins this round!'', status = playing\<rparr>]"

definition big_score_db :: games where
  "big_score_db = [''g'' \<mapsto> \<lparr>player1_id = Some ''u1'', player2_id = Some ''u2'',
     player1_choice = Some rock, player2_choice = None,
     player1_score = 9007199254740992, player2_score = 0,
     last_result = None, status = playing\<rparr>]"

definition empty_id_db :: games where
  "empty_id_db = [''g'' \<mapsto> \<lparr>player1_id = Some ''u1'', player2_id = Some [],
     player1_choice = None, player2_choice = None,
     player1_score = 0, player2_score = 0,
     last_result = None, status = playing\<rparr>]"

section \<open>Properties of \<open>determineWinner\<close>\<close>

lemma beats_spec_cyclic: "a \<noteq> b \<longleftrightarrow> (beats_spec a b \<noteq> beats_spec b a)"
  by (cases a; cases b) simp_all

lemma beats_spec_irrefl: "\<not> beats_spec a a"
  by (cases a) simp_all

text \<open>
  Claim C4. \<open>determineWinner\<close> is a total function of two optional choices: it is
  \<open>None\<close> (undetermined) as soon as one choice is absent; on two present choices it is a
  draw when they are equal, and otherwise the side whose choice beats the other's under
  rock beats scissors, scissors beats paper, paper beats rock. The three winning pairs
  of player 1 are listed, and swapping the two choices swaps the winner.
\<close>

theorem determineWinner_spec:
  "determineWinner None q = None \<and>
   determineWinner p None = None \<and>
   determineWinner (Some a) (Some b) =
     Some (if a = b then draw else if beats_spec a b then player1 else player2) \<and>
   (beats_spec a b \<or> beats_spec b a \<or> a = b) \<and>
   determineWinner (Some rock) (Some scissors) = Some player1 \<and>
   determineWinner (Some paper) (Some rock) = Some player1 \<and>
   determineWinner (Some scissors) (Some paper) = Some player1 \<and>
   determineWinner (Some scissors) (Some rock) = Some player2 \<and>
   determineWinner (Some rock) (Some paper) = Some player2 \<and>
   determineWinner (Some paper) (Some scissors) = Some player2 \<and>
   (determineWinner (Some a) (Some b) = Some player1 \<longleftrightarrow>
      determineWinner (Some b) (Some a) = Some player2)"
proof -
  have absent: "determineWinner None q = None" "determineWinner p None = None"
    by (cases p; simp)+
  have table: "determineWinner (Some a) (Some b) =
      Some (if a = b then draw else if beats_spec a b then player1 else player2)"
    by (cases a; cases b) simp_all
  have total: "beats_spec a b \<or> beats_spec b a \<or> a = b"
    by (cases a; cases b) simp_all
  have mirror: "determineWinner (Some a) (Some b) = Some player1 \<longleftrightarrow>
      determineWinner (Some b) (Some a) = Some player2"
    by (cases a; cases b) simp_all
  from absent table total mirror show ?thesis by simp
qed

section \<open>Properties of \<open>number_add\<close>\<close>

lemma bit_length_le: "n < 2 ^ k \<Longrightarrow> bit_length n \<le> k"
proof (induction n arbitrary: k rule: bit_length.induct)
  case (1 n)
  show ?case
  proof (cases "n = 0")
    case True
    then show ?thesis by (simp add: bit_length.simps)
  next
    case False
    with "1.prems" obtain j where k: "k = Suc j" by (cases k) auto
    with "1.prems" have "n div 2 < 2 ^ j" by auto
    with "1.IH" [OF False] have "bit_length (n div 2) \<le> j" .
    with False k show ?thesis by (simp add: bit_length.simps [of n])
  qed
qed

lemma bit_length_power: "bit_length (2 ^ k) = Suc k"
proof (induction k)
  case 0
  show ?case by (simp add: bit_length.simps [of "Suc 0"] bit_length.simps [of 0])
next
  case (Suc k)
  have "bit_length (2 ^ Suc k) = Suc (bit_length (2 ^ Suc k div 2))"
    by (subst bit_length.simps) simp
  with Suc show ?case by simp
qed

text \<open>An integer of magnitude up to \<open>2 ^ 53\<close> is a number.\<close>

lemma to_number_small:
  assumes "\<bar>x\<bar> < 2 ^ 53"
  shows "to_number x = x"
proof -
  from assms have "nat \<bar>x\<bar> < 2 ^ 53"
    by (simp add: nat_less_iff)
  then have "bit_length (nat \<bar>x\<bar>) - 53 = 0"
    using bit_length_le [of "nat \<bar>x\<bar>" 53] by simp
  then have "to_number x = sgn x * int (nat \<bar>x\<bar>)"
    by (simp add: to_number_def)
  also have "\<dots> = x"
    by (simp add: mult_sgn_abs)
  finally show ?thesis .
qed

lemma to_number_2_53: "to_number (2 ^ 53) = 2 ^ 53"
proof -
  have "bit_length (nat \<bar>2 ^ 53 :: int\<bar>) = 54"
    using bit_length_power [of 53] by (simp add: nat_power_eq)
  then show ?thesis
    by (simp add: to_number_def Let_def)
qed

text \<open>Below \<open>2 ^ 53\<close> adding 1 is exact.\<close>

lemma number_add_one_safe:
  assumes "\<bar>n\<bar> < 2 ^ 53"
  shows "number_add n 1 = n + 1"
proof (cases "n + 1 = 2 ^ 53")
  case True
  with to_number_2_53 show ?thesis by (simp add: number_add_def)
next
  case False
  with assms have "\<bar>n + 1\<bar> < 2 ^ 53" by linarith
  then show ?thesis by (simp add: number_add_def to_number_small)
qed

text \<open>
  At \<open>2 ^ 53\<close> it is not: \<open>2 ^ 53 + 1\<close> lies halfway between the numbers \<open>2 ^ 53\<close> and
  \<open>2 ^ 53 + 2\<close>, and the tie goes to \<open>2 ^ 53\<close>.
\<close>

lemma number_add_one_stuck: "number_add 9007199254740992 1 = 9007199254740992"
proof -
  have "(9007199254740993 :: nat) < 2 ^ 54" by simp
  then have "bit_length 9007199254740993 \<le> 54" by (rule bit_length_le)
  moreover have "bit_length 9007199254740993 = Suc (bit_length 4503599627370496)"
    by (simp add: bit_length.simps [of 9007199254740993])
  moreover have "bit_length 4503599627370496 = 53"
    using bit_length_power [of 52] by simp
  ultimately have "bit_length 9007199254740993 = 54" by simp
  then show ?thesis
    by (simp add: number_add_def to_number_def Let_def)
qed

section \<open>Properties of \<open>makeMove\<close>\<close>

lemmas store_defs = apply_update_def no_update_def assign_def update_eq_id_def

lemma makeMove_not_found:
  "db gameId = None \<Longrightarrow>
   makeMove db updateError gameId playerId choice = (db, Inl Game_not_found)"
  by (simp add: makeMove_def makeMove_finish_def makeMove_selected_def)

lemma makeMove_invalid_player:
  "db gameId = Some game \<Longrightarrow> player1_id game \<noteq> Some playerId \<Longrightarrow>
   player2_id game \<noteq> Some playerId \<Longrightarrow>
   makeMove db updateError gameId playerId choice = (db, Inl Invalid_player)"
  by (simp add: makeMove_def makeMove_finish_def makeMove_selected_def)

lemma makeMove_update:
  assumes "db gameId = Some game"
    and "makeMove_selected (Some game) playerId choice = Update u"
  shows "makeMove db updateError gameId playerId choice =
    (if updateError then (db, Inl Store_error)
     else (db(gameId \<mapsto> apply_update u game), Inr success))"
  using assms by (simp add: makeMove_def makeMove_finish_def update_eq_id_def)

lemma makeMove_selected_player1:
  assumes "player1_id game = Some playerId"
  shows "makeMove_selected (Some game) playerId choice =
    Update (makeMove_resolve game choice True
      (no_update\<lparr>upd_player1_choice := Some (Some choice)\<rparr>))"
  using assms by (simp add: makeMove_selected_def)

lemma makeMove_selected_player2:
  assumes "player1_id game \<noteq> Some playerId" and "player2_id game = Some playerId"
  shows "makeMove_selected (Some game) playerId choice =
    Update (makeMove_resolve game choice False
      (no_update\<lparr>upd_player2_choice := Some (Some choice)\<rparr>))"
  using assms by (simp add: makeMove_selected_def)

lemma resolve_player1_waits:
  assumes "player2_choice game = None"
  shows "apply_update (makeMove_resolve game choice True
        (no_update\<lparr>upd_player1_choice := Some (Some choice)\<rparr>)) game
     = game\<lparr>player1_choice := Some choice, last_result := None\<rparr>"
  using assms by (simp add: makeMove_resolve_def store_defs)

lemma resolve_player2_waits:
  assumes "player1_choice game = None"
  shows "apply_update (makeMove_resolve game choice False
        (no_update\<lparr>upd_player2_choice := Some (Some choice)\<rparr>)) game
     = game\<lparr>player2_choice := Some choice, last_result := None\<rparr>"
  using assms by (simp add: makeMove_resolve_def store_defs)

lemma determineWinner_Some: "\<exists>w. determineWinner (Some a) (Some b) = Some w"
  by simp

lemma resolve_completes:
  assumes "(if isPlayer1 then Some choice else player1_choice game) = Some c1"
    and "(if isPlayer1 then player2_choice game else Some choice) = Some c2"
    and "determineWinner (Some c1) (Some c2) = Some w"
    and "updateData = (if isPlayer1 then no_update\<lparr>upd_player1_choice := Some (Some choice)\<rparr>
           else no_update\<lparr>upd_player2_choice := Some (Some choice)\<rparr>)"
  shows "apply_update (makeMove_resolve game choice isPlayer1 updateData) game
     = game\<lparr>player1_choice := None, player2_choice := None,
         player1_score :=
           (if w = player1 then number_add (player1_score game) 1 else player1_score game),
         player2_score :=
           (if w = player2 then number_add (player2_score game) 1 else player2_score game),
         last_result := Some (case w of
             player1 \<Rightarrow> ''Player 1 wins this round!''
           | player2 \<Rightarrow> ''Player 2 wins this round!''
           | draw \<Rightarrow> ''It's a draw!'')\<rparr>"
proof (cases w)
  case player1
  with assms show ?thesis
    by (cases isPlayer1) (simp_all add: makeMove_resolve_def store_defs del: determineWinner.simps)
next
  case player2
  with assms show ?thesis
    by (cases isPlayer1) (simp_all add: makeMove_resolve_def store_defs del: determineWinner.simps)
next
  case draw
  with assms show ?thesis
    by (cases isPlayer1) (simp_all add: makeMove_resolve_def store_defs del: determineWinner.simps)
qed

text \<open>
  Claim C1, as stated, fails at a score of \<open>2 ^ 53\<close>: player 1 wins the round with rock
  against scissors, and the update writes the score that was read.
\<close>

theorem makeMove_score_counterexample:
  "player1_score (the (big_score_db ''g'')) = 9007199254740992 \<and>
   determineWinner (Some rock) (Some scissors) = Some player1 \<and>
   makeMove big_score_db False ''g'' ''u2'' scissors =
     (big_score_db(''g'' \<mapsto> \<lparr>player1_id = Some ''u1'', player2_id = Some ''u2'',
        player1_choice = None, player2_choice = None,
        player1_score = 9007199254740992, player2_score = 0,
        last_result = Some ''Player 1 wins this round!'', status = playing\<rparr>),
      Inr success)"
  by (simp add: big_score_db_def makeMove_def makeMove_finish_def makeMove_selected_def
      makeMove_resolve_def store_defs number_add_one_stuck)

text \<open>
  Claim C1, amended. When a move of a participant bound to the game completes the round
  (with the move, both choices are present), \<open>makeMove\<close> resolves the round with
  \<open>determineWinner\<close> and issues one update: 1 is added to the winner's score as JavaScript
  adds it, which is exactly 1 more when the score is an integer of magnitude below
  \<open>2 ^ 53\<close>; the other score stays, \<open>last_result\<close> names the winning side, both choices are cleared; on
  a draw no score changes and \<open>last_result\<close> is the draw message. The table holds the
  updated row when the store carries the update out; when the store answers it with an
  error, the call returns the error and the table is unchanged.
\<close>

theorem makeMove_completes_round:
  assumes "db gameId = Some game"
    and "player1_id game = Some playerId \<or> player2_id game = Some playerId"
    and "isPlayer1 = (player1_id game = Some playerId)"
    and "(if isPlayer1 then Some choice else player1_choice game) = Some c1"
    and "(if isPlayer1 then player2_choice game else Some choice) = Some c2"
  shows "\<exists>w u. determineWinner (Some c1) (Some c2) = Some w \<and>
    makeMove_selected (Some game) playerId choice = Update u \<and>
    makeMove db updateError gameId playerId choice =
      (if updateError then (db, Inl Store_error)
       else (db(gameId \<mapsto> apply_update u game), Inr success)) \<and>
    apply_update u game =
      game\<lparr>player1_choice := None, player2_choice := None,
         player1_score :=
           (if w = player1 then number_add (player1_score game) 1 else player1_score game),
         player2_score :=
           (if w = player2 then number_add (player2_score game) 1 else player2_score game),
         last_result := Some (case w of
             player1 \<Rightarrow> ''Player 1 wins this round!''
           | player2 \<Rightarrow> ''Player 2 wins this round!''
           | draw \<Rightarrow> ''It's a draw!'')\<rparr> \<and>
    (\<bar>player1_score game\<bar> < 2 ^ 53 \<longrightarrow>
       number_add (player1_score game) 1 = player1_score game + 1) \<and>
    (\<bar>player2_score game\<bar> < 2 ^ 53 \<longrightarrow>
       number_add (player2_score game) 1 = player2_score game + 1)"
proof -
  obtain w where w: "determineWinner (Some c1) (Some c2) = Some w"
    using determineWinner_Some by blast
  define updateData where "updateData =
    (if isPlayer1 then no_update\<lparr>upd_player1_choice := Some (Some choice)\<rparr>
     else no_update\<lparr>upd_player2_choice := Some (Some choice)\<rparr>)"
  define u where "u = makeMove_resolve game choice isPlayer1 updateData"
  have sel: "makeMove_selected (Some game) playerId choice = Update u"
    using assms(2,3) by (auto simp: makeMove_selected_def u_def updateData_def)
  have mv: "makeMove db updateError gameId playerId choice =
      (if updateError then (db, Inl Store_error)
       else (db(gameId \<mapsto> apply_update u game), Inr success))"
    using assms(1) sel by (rule makeMove_update)
  have row: "apply_update u game =
      game\<lparr>player1_choice := None, player2_choice := None,
         player1_score :=
           (if w = player1 then number_add (player1_score game) 1 else player1_score game),
         player2_score :=
           (if w = player2 then number_add (player2_score game) 1 else player2_score game),
         last_result := Some (case w of
             player1 \<Rightarrow> ''Player 1 wins this round!''
           | player2 \<Rightarrow> ''Player 2 wins this round!''
           | draw \<Rightarrow> ''It's a draw!'')\<rparr>"
    unfolding u_def by (rule resolve_completes [OF assms(4,5) w updateData_def])
  from w sel mv row number_add_one_safe show ?thesis by blast
qed

theorem makeMove_completes_round_witness:
  "makeMove round_db False ''g'' ''u2'' scissors =
     (round_db(''g'' \<mapsto> \<lparr>player1_id = Some ''u1'', player2_id = Some ''u2'',
        player1_choice = None, player2_choice = None,
        player1_score = 1, player2_score = 0,
        last_result = Some ''Player 1 wins this round!'', status = playing\<rparr>),
      Inr success) \<and>
   makeMove round_db True ''g'' ''u2'' scissors = (round_db, Inl Store_error)"
  using makeMove_completes_round [of round_db "''g''" "the (round_db ''g'')" "''u2''" False
      scissors rock scissors False]
    makeMove_completes_round [of round_db "''g''" "the (round_db ''g'')" "''u2''" False
      scissors rock scissors True]
  by (auto simp: round_db_def)

text \<open>
  Claim C8. When, after the move of a bound participant, only that participant's choice
  is present (the opponent has not chosen), the one update of \<open>makeMove\<close> stores the
  choice and sets \<open>last_result\<close> to \<open>null\<close>; it is the update that the table holds when
  the store has carried it out.
\<close>

theorem makeMove_first_choice_clears_result:
  assumes "db gameId = Some game"
    and "player1_id game = Some playerId \<or> player2_id game = Some playerId"
    and "isPlayer1 = (player1_id game = Some playerId)"
    and "(if isPlayer1 then player2_choice game else player1_choice game) = None"
  shows "\<exists>u. makeMove_selected (Some game) playerId choice = Update u \<and>
    upd_last_result u = Some None \<and>
    makeMove db updateError gameId playerId choice =
      (if updateError then (db, Inl Store_error)
       else (db(gameId \<mapsto> apply_update u game), Inr success)) \<and>
    apply_update u game =
      (if isPlayer1 then game\<lparr>player1_choice := Some choice, last_result := None\<rparr>
       else game\<lparr>player2_choice := Some choice, last_result := None\<rparr>)"
proof (cases isPlayer1)
  case True
  define u where "u = makeMove_resolve game choice True
    (no_update\<lparr>upd_player1_choice := Some (Some choice)\<rparr>)"
  from True assms(3) have p1: "player1_id game = Some playerId" by simp
  from True assms(4) have other: "player2_choice game = None" by simp
  have sel: "makeMove_selected (Some game) playerId choice = Update u"
    unfolding u_def using p1 by (rule makeMove_selected_player1)
  moreover have "upd_last_result u = Some None"
    using other by (simp add: u_def makeMove_resolve_def)
  moreover have "makeMove db updateError gameId playerId choice =
      (if updateError then (db, Inl Store_error)
       else (db(gameId \<mapsto> apply_update u game), Inr success))"
    using assms(1) sel by (rule makeMove_update)
  moreover have "apply_update u game = game\<lparr>player1_choice := Some choice, last_result := None\<rparr>"
    unfolding u_def by (rule resolve_player1_waits [OF other])
  ultimately show ?thesis using True by auto
next
  case False
  define u where "u = makeMove_resolve game choice False
    (no_update\<lparr>upd_player2_choice := Some (Some choice)\<rparr>)"
  from False assms(3) have p1: "player1_id game \<noteq> Some playerId" by simp
  with assms(2) have p2: "player2_id game = Some playerId" by simp
  from False assms(4) have other: "player1_choice game = None" by simp
  have sel: "makeMove_selected (Some game) playerId choice = Update u"
    unfolding u_def using p1 p2 by (rule makeMove_selected_player2)
  moreover have "upd_last_result u = Some None"
    using other by (simp add: u_def makeMove_resolve_def)
  moreover have "makeMove db updateError gameId playerId choice =
      (if updateError then (db, Inl Store_error)
       else (db(gameId \<mapsto> apply_update u game), Inr success))"
    using assms(1) sel by (rule makeMove_update)
  moreover have "apply_update u game = game\<lparr>player2_choice := Some choice, last_result := None\<rparr>"
    unfolding u_def by (rule resolve_player2_waits [OF other])
  ultimately show ?thesis using False by auto
qed

theorem makeMove_first_choice_clears_result_witness:
  "makeMove stale_db False ''g'' ''u1'' paper =
     (stale_db(''g'' \<mapsto> \<lparr>player1_id = Some ''u1'', player2_id = Some ''u2'',
        player1_choice = Some paper, player2_choice = None,
        player1_score = 1, player2_score = 0,
        last_result = None, status = playing\<rparr>),
      Inr success) \<and>
   makeMove stale_db True ''g'' ''u1'' paper = (stale_db, Inl Store_error)"
  using makeMove_first_choice_clears_result [of stale_db "''g''" "the (stale_db ''g'')"
      "''u1''" True paper False]
    makeMove_first_choice_clears_result [of stale_db "''g''" "the (stale_db ''g'')"
      "''u1''" True paper True]
  by (auto simp: stale_db_def)

subsection \<open>The state of a round\<close>

lemma makeMove_update_not_both:
  assumes "makeMove_selected (Some row) playerId choice = Update u"
  shows "\<not> both_chosen (apply_update u row)"
proof (cases "player1_id row = Some playerId")
  case True
  with assms have "u = makeMove_resolve row choice True
      (no_update\<lparr>upd_player1_choice := Some (Some choice)\<rparr>)"
    by (simp add: makeMove_selected_def)
  then show ?thesis
    by (auto simp: both_chosen_def makeMove_resolve_def store_defs Let_def)
next
  case False
  with assms have "u = makeMove_resolve row choice False
      (no_update\<lparr>upd_player2_choice := Some (Some choice)\<rparr>)"
    by (simp add: makeMove_selected_def split: if_splits)
  then show ?thesis
    by (auto simp: both_chosen_def makeMove_resolve_def store_defs Let_def)
qed

lemma makeMove_selected_bound:
  assumes "player1_id game = Some playerId \<or> player2_id game = Some playerId"
  shows "\<exists>u. makeMove_selected (Some game) playerId choice = Update u"
  using assms
  by (cases "player1_id game = Some playerId") (simp_all add: makeMove_selected_def)

lemma makeMove_keeps_round_open:
  assumes "db gameId = Some game" and "\<not> both_chosen game"
  shows "\<exists>game'. fst (makeMove db e g p c) gameId = Some game' \<and> \<not> both_chosen game'"
proof (cases "db g")
  case None
  then show ?thesis using assms by (simp add: makeMove_not_found)
next
  case (Some row)
  show ?thesis
  proof (cases "player1_id row = Some p \<or> player2_id row = Some p")
    case True
    from makeMove_selected_bound [OF True] obtain u
      where sel: "makeMove_selected (Some row) p c = Update u" ..
    have open': "\<not> both_chosen (apply_update u row)"
      using sel by (rule makeMove_update_not_both)
    have "makeMove db e g p c =
        (if e then (db, Inl Store_error) else (db(g \<mapsto> apply_update u row), Inr success))"
      using Some sel by (rule makeMove_update)
    then show ?thesis using assms open' by (cases "g = gameId") (simp_all split: if_splits)
  next
    case False
    then show ?thesis using assms Some by (simp add: makeMove_invalid_player)
  qed
qed

lemma makeMoves_keep_round_open:
  assumes "db gameId = Some game" and "\<not> both_chosen game"
  shows "\<exists>game'. getGameState (makeMoves db calls) gameId = Inr game' \<and> \<not> both_chosen game'"
  using assms
proof (induction calls arbitrary: db game)
  case Nil
  then show ?case by (simp add: getGameState_def)
next
  case (Cons call calls)
  obtain e g p c where call: "call = (e, g, p, c)" by (cases call)
  from makeMove_keeps_round_open [of db gameId game e g p c, OF Cons.prems] obtain game1
    where game1: "fst (makeMove db e g p c) gameId = Some game1" "\<not> both_chosen game1"
    by blast
  have "\<exists>game'. getGameState (makeMoves (fst (makeMove db e g p c)) calls) gameId = Inr game' \<and>
      \<not> both_chosen game'"
    using game1 by (rule Cons.IH)
  then show ?case by (simp add: call)
qed

text \<open>
  Calls that run one after the other never bring the state about: a row that has both
  choices set after the calls was in the table, as it is, before them.
\<close>

lemma makeMove_both_chosen_untouched:
  assumes "fst (makeMove db e g p c) gameId = Some row" and "both_chosen row"
  shows "db gameId = Some row"
proof (cases "db g")
  case None
  with assms show ?thesis by (simp add: makeMove_not_found)
next
  case (Some game)
  show ?thesis
  proof (cases "player1_id game = Some p \<or> player2_id game = Some p")
    case True
    from makeMove_selected_bound [OF True] obtain u
      where sel: "makeMove_selected (Some game) p c = Update u" ..
    have open': "\<not> both_chosen (apply_update u game)"
      using sel by (rule makeMove_update_not_both)
    have "makeMove db e g p c =
        (if e then (db, Inl Store_error) else (db(g \<mapsto> apply_update u game), Inr success))"
      using Some sel by (rule makeMove_update)
    with assms open' show ?thesis by (cases "g = gameId") (simp_all split: if_splits)
  next
    case False
    with assms Some show ?thesis by (simp add: makeMove_invalid_player)
  qed
qed

lemma makeMoves_both_chosen_untouched:
  assumes "makeMoves db calls gameId = Some row" and "both_chosen row"
  shows "db gameId = Some row"
  using assms
proof (induction calls arbitrary: db)
  case Nil
  then show ?case by simp
next
  case (Cons call calls)
  obtain e g p c where call: "call = (e, g, p, c)" by (cases call)
  from Cons.prems(1) have "makeMoves (fst (makeMove db e g p c)) calls gameId = Some row"
    by (simp add: call)
  then have "fst (makeMove db e g p c) gameId = Some row"
    using Cons.prems(2) by (rule Cons.IH)
  then show ?case using Cons.prems(2) by (rule makeMove_both_chosen_untouched)
qed

subsection \<open>Two players moving at once\<close>

lemma makeMove_finish_update:
  assumes "db gameId = Some row"
  shows "makeMove_finish db False gameId (Update u) =
    (db(gameId \<mapsto> apply_update u row), Inr success)"
  using assms by (simp add: makeMove_finish_def update_eq_id_def)

text \<open>The two steps of one call, run without interruption, are the call.\<close>

lemma makeMove_two_steps:
  "makeMove_interleaved gameId (playerId, choice, updateError) call2 [First, First]
       (db, Move_not_started, p2) =
     (fst (makeMove db updateError gameId playerId choice),
      Move_finished (snd (makeMove db updateError gameId playerId choice)), p2)"
  "makeMove_interleaved gameId call1 (playerId, choice, updateError) [Second, Second]
       (db, p1, Move_not_started) =
     (fst (makeMove db updateError gameId playerId choice), p1,
      Move_finished (snd (makeMove db updateError gameId playerId choice)))"
  by (simp_all add: makeMove_advance_def makeMove_def split: prod.splits)

text \<open>
  Claim C2, as stated, fails: the update of \<open>makeMove\<close> names only the mover's own
  choice. When both players' calls select the row before either updates it, each finds
  the other's choice absent, and after the two updates the table holds the game with
  both choices set, no score changed and no result.
\<close>

theorem makeMove_overlap_counterexample:
  "\<not> both_chosen (the (full_db ''g'')) \<and>
   makeMove_interleaved ''g'' (''u1'', rock, False) (''u2'', paper, False)
       [First, Second, First, Second] (full_db, Move_not_started, Move_not_started) =
     (full_db(''g'' \<mapsto> \<lparr>player1_id = Some ''u1'', player2_id = Some ''u2'',
          player1_choice = Some rock, player2_choice = Some paper,
          player1_score = 0, player2_score = 0,
          last_result = None, status = playing\<rparr>),
      Move_finished (Inr success), Move_finished (Inr success)) \<and>
   both_chosen \<lparr>player1_id = Some ''u1'', player2_id = Some ''u2'',
          player1_choice = Some rock, player2_choice = Some paper,
          player1_score = 0, player2_score = 0,
          last_result = None, status = playing\<rparr>"
  by (simp add: full_db_def both_chosen_def makeMove_advance_def makeMove_selected_def
      makeMove_finish_def makeMove_resolve_def store_defs)

text \<open>
  Claim C2, amended. When the calls of \<open>makeMove\<close> run one after the other, a game
  that did not have both choices set never has both set when it is read, and every
  update leaves the row it was computed from without both set. For the two players of
  a game in which nobody has chosen: when one call ends before the other starts, the
  second move is scored and cleared by its own update; when both calls select before
  either updates, the table is left with both choices set and the round unscored.
\<close>

theorem makeMove_round_atomicity:
  fixes db :: games and game :: Game and gameId user1 user2 :: string
    and choice1 choice2 :: choice
  defines "start \<equiv> (db, Move_not_started, Move_not_started)"
    and "call1 \<equiv> (user1, choice1, False)"
    and "call2 \<equiv> (user2, choice2, False)"
    and "ended \<equiv> Move_finished (Inr success)"
    and "unscored \<equiv>
      game\<lparr>player1_choice := Some choice1, player2_choice := Some choice2,
        last_result := None\<rparr>"
  assumes "db gameId = Some game" and "\<not> both_chosen game"
  shows "(\<exists>game'. getGameState (makeMoves db calls) gameId = Inr game' \<and>
      \<not> both_chosen game') \<and>
    (\<forall>row playerId choice u. makeMove_selected (Some row) playerId choice = Update u \<longrightarrow>
      \<not> both_chosen (apply_update u row)) \<and>
    (player1_id game = Some user1 \<and> player2_id game = Some user2 \<and> user1 \<noteq> user2 \<and>
     player1_choice game = None \<and> player2_choice game = None \<longrightarrow>
      (\<exists>w scored. determineWinner (Some choice1) (Some choice2) = Some w \<and>
        scored = game\<lparr>player1_choice := None, player2_choice := None,
          player1_score :=
            (if w = player1 then number_add (player1_score game) 1 else player1_score game),
          player2_score :=
            (if w = player2 then number_add (player2_score game) 1 else player2_score game),
          last_result := Some (case w of
              player1 \<Rightarrow> ''Player 1 wins this round!''
            | player2 \<Rightarrow> ''Player 2 wins this round!''
            | draw \<Rightarrow> ''It's a draw!'')\<rparr> \<and>
        \<not> both_chosen scored \<and> both_chosen unscored \<and>
        makeMove_interleaved gameId call1 call2 [First, First, Second, Second] start =
          (db(gameId \<mapsto> scored), ended, ended) \<and>
        makeMove_interleaved gameId call1 call2 [Second, Second, First, First] start =
          (db(gameId \<mapsto> scored), ended, ended) \<and>
        makeMove_interleaved gameId call1 call2 [First, Second, First, Second] start =
          (db(gameId \<mapsto> unscored), ended, ended) \<and>
        makeMove_interleaved gameId call1 call2 [Second, First, First, Second] start =
          (db(gameId \<mapsto> unscored), ended, ended) \<and>
        makeMove_interleaved gameId call1 call2 [First, Second, Second, First] start =
          (db(gameId \<mapsto> unscored), ended, ended) \<and>
        makeMove_interleaved gameId call1 call2 [Second, First, Second, First] start =
          (db(gameId \<mapsto> unscored), ended, ended)))"
proof (intro conjI impI)
  show "\<exists>game'. getGameState (makeMoves db calls) gameId = Inr game' \<and> \<not> both_chosen game'"
    using assms(6,7) by (rule makeMoves_keep_round_open)
next
  show "\<forall>row playerId choice u. makeMove_selected (Some row) playerId choice = Update u \<longrightarrow>
      \<not> both_chosen (apply_update u row)"
    using makeMove_update_not_both by blast
next
  assume players: "player1_id game = Some user1 \<and> player2_id game = Some user2 \<and>
    user1 \<noteq> user2 \<and> player1_choice game = None \<and> player2_choice game = None"
  obtain w where w: "determineWinner (Some choice1) (Some choice2) = Some w"
    using determineWinner_Some by blast
  define scored where "scored = game\<lparr>player1_choice := None, player2_choice := None,
          player1_score :=
            (if w = player1 then number_add (player1_score game) 1 else player1_score game),
          player2_score :=
            (if w = player2 then number_add (player2_score game) 1 else player2_score game),
          last_result := Some (case w of
              player1 \<Rightarrow> ''Player 1 wins this round!''
            | player2 \<Rightarrow> ''Player 2 wins this round!''
            | draw \<Rightarrow> ''It's a draw!'')\<rparr>"
  define first1 where "first1 = game\<lparr>player1_choice := Some choice1, last_result := None\<rparr>"
  define first2 where "first2 = game\<lparr>player2_choice := Some choice2, last_result := None\<rparr>"
  define u1 where "u1 = makeMove_resolve game choice1 True
      (no_update\<lparr>upd_player1_choice := Some (Some choice1)\<rparr>)"
  define u2 where "u2 = makeMove_resolve game choice2 False
      (no_update\<lparr>upd_player2_choice := Some (Some choice2)\<rparr>)"
  define v1 where "v1 = makeMove_resolve first2 choice1 True
      (no_update\<lparr>upd_player1_choice := Some (Some choice1)\<rparr>)"
  define v2 where "v2 = makeMove_resolve first1 choice2 False
      (no_update\<lparr>upd_player2_choice := Some (Some choice2)\<rparr>)"
  from players have p2: "player1_id game \<noteq> Some user2" by auto
  have sel1: "makeMove_selected (Some game) user1 choice1 = Update u1"
    unfolding u1_def using players by (intro makeMove_selected_player1) simp
  have sel2: "makeMove_selected (Some game) user2 choice2 = Update u2"
    unfolding u2_def using players p2 by (intro makeMove_selected_player2) simp_all
  have late1: "makeMove_selected (Some first2) user1 choice1 = Update v1"
    unfolding v1_def using players by (intro makeMove_selected_player1) (simp add: first2_def)
  have late2: "makeMove_selected (Some first1) user2 choice2 = Update v2"
    unfolding v2_def using players p2
    by (intro makeMove_selected_player2) (simp_all add: first1_def)
  have a1: "apply_update u1 row = row\<lparr>player1_choice := Some choice1, last_result := None\<rparr>"
    for row
    using players by (simp add: u1_def makeMove_resolve_def store_defs)
  have a2: "apply_update u2 row = row\<lparr>player2_choice := Some choice2, last_result := None\<rparr>"
    for row
    using players by (simp add: u2_def makeMove_resolve_def store_defs)
  have b1: "apply_update v1 first2 = scored"
  proof -
    have "apply_update v1 first2 = first2\<lparr>player1_choice := None, player2_choice := None,
          player1_score :=
            (if w = player1 then number_add (player1_score first2) 1 else player1_score first2),
          player2_score :=
            (if w = player2 then number_add (player2_score first2) 1 else player2_score first2),
          last_result := Some (case w of
              player1 \<Rightarrow> ''Player 1 wins this round!''
            | player2 \<Rightarrow> ''Player 2 wins this round!''
            | draw \<Rightarrow> ''It's a draw!'')\<rparr>"
      unfolding v1_def
      by (rule resolve_completes [where ?c1.0 = choice1 and ?c2.0 = choice2])
        (simp_all add: first2_def w del: determineWinner.simps)
    then show ?thesis by (simp add: first2_def scored_def)
  qed
  have b2: "apply_update v2 first1 = scored"
  proof -
    have "apply_update v2 first1 = first1\<lparr>player1_choice := None, player2_choice := None,
          player1_score :=
            (if w = player1 then number_add (player1_score first1) 1 else player1_score first1),
          player2_score :=
            (if w = player2 then number_add (player2_score first1) 1 else player2_score first1),
          last_result := Some (case w of
              player1 \<Rightarrow> ''Player 1 wins this round!''
            | player2 \<Rightarrow> ''Player 2 wins this round!''
            | draw \<Rightarrow> ''It's a draw!'')\<rparr>"
      unfolding v2_def
      by (rule resolve_completes [where ?c1.0 = choice1 and ?c2.0 = choice2])
        (simp_all add: first1_def w del: determineWinner.simps)
    then show ?thesis by (simp add: first1_def scored_def)
  qed
  have swap: "game\<lparr>player2_choice := Some choice2, player1_choice := Some choice1,
        last_result := None\<rparr> =
      game\<lparr>player1_choice := Some choice1, player2_choice := Some choice2,
        last_result := None\<rparr>"
    by (rule Game.equality) simp_all
  note steps = makeMove_advance_def makeMove_finish_update start_def call1_def call2_def
    ended_def
  have seq1: "makeMove_interleaved gameId call1 call2 [First, First, Second, Second] start =
      (db(gameId \<mapsto> scored), ended, ended)"
    using assms(6) sel1 late2 by (simp add: steps a1 b2 first1_def [symmetric])
  have seq2: "makeMove_interleaved gameId call1 call2 [Second, Second, First, First] start =
      (db(gameId \<mapsto> scored), ended, ended)"
    using assms(6) sel2 late1 by (simp add: steps a2 b1 first2_def [symmetric])
  have race: "makeMove_interleaved gameId call1 call2 [First, Second, First, Second] start =
      (db(gameId \<mapsto> unscored), ended, ended)"
    "makeMove_interleaved gameId call1 call2 [Second, First, First, Second] start =
      (db(gameId \<mapsto> unscored), ended, ended)"
    "makeMove_interleaved gameId call1 call2 [First, Second, Second, First] start =
      (db(gameId \<mapsto> unscored), ended, ended)"
    "makeMove_interleaved gameId call1 call2 [Second, First, Second, First] start =
      (db(gameId \<mapsto> unscored), ended, ended)"
    using assms(6) sel1 sel2 by (simp_all add: steps a1 a2 unscored_def swap)
  have "\<not> both_chosen scored" "both_chosen unscored"
    by (simp_all add: both_chosen_def scored_def unscored_def)
  with w scored_def seq1 seq2 race
  show "\<exists>w scored. determineWinner (Some choice1) (Some choice2) = Some w \<and>
        scored = game\<lparr>player1_choice := None, player2_choice := None,
          player1_score :=
            (if w = player1 then number_add (player1_score game) 1 else player1_score game),
          player2_score :=
            (if w = player2 then number_add (player2_score game) 1 else player2_score game),
          last_result := Some (case w of
              player1 \<Rightarrow> ''Player 1 wins this round!''
            | player2 \<Rightarrow> ''Player 2 wins this round!''
            | draw \<Rightarrow> ''It's a draw!'')\<rparr> \<and>
        \<not> both_chosen scored \<and> both_chosen unscored \<and>
        makeMove_interleaved gameId call1 call2 [First, First, Second, Second] start =
          (db(gameId \<mapsto> scored), ended, ended) \<and>
        makeMove_interleaved gameId call1 call2 [Second, Second, First, First] start =
          (db(gameId \<mapsto> scored), ended, ended) \<and>
        makeMove_interleaved gameId call1 call2 [First, Second, First, Second] start =
          (db(gameId \<mapsto> unscored), ended, ended) \<and>
        makeMove_interleaved gameId call1 call2 [Second, First, First, Second] start =
          (db(gameId \<mapsto> unscored), ended, ended) \<and>
        makeMove_interleaved gameId call1 call2 [First, Second, Second, First] start =
          (db(gameId \<mapsto> unscored), ended, ended) \<and>
        makeMove_interleaved gameId call1 call2 [Second, First, Second, First] start =
          (db(gameId \<mapsto> unscored), ended, ended)"
    by blast
qed

theorem makeMove_round_atomicity_witness:
  "\<not> both_chosen (the (full_db ''g'')) \<and>
   (\<exists>game'. getGameState (makeMoves full_db
       [(False, ''g'', ''u1'', rock), (True, ''g'', ''u2'', paper),
        (False, ''g'', ''u2'', scissors), (False, ''g'', ''u3'', rock)]) ''g'' = Inr game' \<and>
      \<not> both_chosen game') \<and>
   makeMove_interleaved ''g'' (''u1'', rock, False) (''u2'', scissors, False)
       [First, First, Second, Second] (full_db, Move_not_started, Move_not_started) =
     (full_db(''g'' \<mapsto> \<lparr>player1_id = Some ''u1'', player2_id = Some ''u2'',
          player1_choice = None, player2_choice = None,
          player1_score = 1, player2_score = 0,
          last_result = Some ''Player 1 wins this round!'', status = playing\<rparr>),
      Move_finished (Inr success), Move_finished (Inr success))"
proof -
  have row: "full_db ''g'' = Some (the (full_db ''g''))"
    and fresh: "\<not> both_chosen (the (full_db ''g''))"
    and players: "player1_id (the (full_db ''g'')) = Some ''u1'' \<and>
      player2_id (the (full_db ''g'')) = Some ''u2'' \<and> ''u1'' \<noteq> ''u2'' \<and>
      player1_choice (the (full_db ''g'')) = None \<and>
      player2_choice (the (full_db ''g'')) = None"
    by (simp_all add: full_db_def both_chosen_def)
  note atomicity = makeMove_round_atomicity [where db = full_db and gameId = "''g''"
      and game = "the (full_db ''g'')" and ?user1.0 = "''u1''" and ?user2.0 = "''u2''"
      and ?choice1.0 = rock and ?choice2.0 = scissors, OF row fresh]
  from atomicity [of "[(False, ''g'', ''u1'', rock), (True, ''g'', ''u2'', paper),
        (False, ''g'', ''u2'', scissors), (False, ''g'', ''u3'', rock)]"]
  have reads: "\<exists>game'. getGameState (makeMoves full_db
       [(False, ''g'', ''u1'', rock), (True, ''g'', ''u2'', paper),
        (False, ''g'', ''u2'', scissors), (False, ''g'', ''u3'', rock)]) ''g'' = Inr game' \<and>
      \<not> both_chosen game'"
    by blast
  from atomicity [of "[]"] players
  have "makeMove_interleaved ''g'' (''u1'', rock, False) (''u2'', scissors, False)
       [First, First, Second, Second] (full_db, Move_not_started, Move_not_started) =
     (full_db(''g'' \<mapsto> (the (full_db ''g''))\<lparr>player1_choice := None, player2_choice := None,
          player1_score := number_add (player1_score (the (full_db ''g''))) 1,
          player2_score := player2_score (the (full_db ''g'')),
          last_result := Some ''Player 1 wins this round!''\<rparr>),
      Move_finished (Inr success), Move_finished (Inr success))"
    by auto
  then have plays: "makeMove_interleaved ''g'' (''u1'', rock, False) (''u2'', scissors, False)
       [First, First, Second, Second] (full_db, Move_not_started, Move_not_started) =
     (full_db(''g'' \<mapsto> \<lparr>player1_id = Some ''u1'', player2_id = Some ''u2'',
          player1_choice = None, player2_choice = None,
          player1_score = 1, player2_score = 0,
          last_result = Some ''Player 1 wins this round!'', status = playing\<rparr>),
      Move_finished (Inr success), Move_finished (Inr success))"
    by (simp add: full_db_def number_add_one_safe)
  from fresh reads plays show ?thesis by blast
qed

subsection \<open>The status and the rejections\<close>

lemma makeMove_selected_status:
  "makeMove_selected (Some (game\<lparr>status := s\<rparr>)) playerId choice =
   makeMove_selected (Some game) playerId choice"
  by (simp add: makeMove_selected_def makeMove_resolve_def Let_def)

lemma makeMove_update_keeps_status:
  assumes "makeMove_selected (Some game) playerId choice = Update u"
  shows "upd_status u = None \<and> upd_player1_id u = None \<and> upd_player2_id u = None"
  using assms
  by (auto simp: makeMove_selected_def makeMove_resolve_def no_update_def Let_def
      split: if_splits)

text \<open>
  Claim C10, as stated, fails: \<open>makeMove\<close> has a third rejection. A move of player 1
  whose update the store answers with an error is returned that error (lines 140 to
  143), which is neither of the two, and the move is not recorded.
\<close>

theorem makeMove_store_error_counterexample:
  "player1_id (the (full_db ''g'')) = Some ''u1'' \<and>
   makeMove full_db True ''g'' ''u1'' rock = (full_db, Inl Store_error) \<and>
   Store_error \<noteq> Game_not_found \<and> Store_error \<noteq> Invalid_player"
  by (simp add: full_db_def makeMove_def makeMove_finish_def makeMove_selected_def)

text \<open>
  Claim C10, amended. \<open>makeMove\<close> does not look at \<open>status\<close>. A missing game is
  rejected with "Game not found" and a player bound to neither slot with "Invalid player
  for this game", both without an update, so the table is unchanged. For every other
  call an update is issued, the same whatever the status is: when the store carries it
  out the move is accepted, the status is as it was, and the choice is stored whenever
  the opponent has not chosen (otherwise it completes the round); when the store
  answers the update with an error, that error is returned and the table is unchanged.
\<close>

theorem makeMove_accepts_any_status:
  "(db gameId = None \<longrightarrow>
      makeMove_selected (db gameId) playerId choice = Return (Inl Game_not_found) \<and>
      makeMove db updateError gameId playerId choice = (db, Inl Game_not_found)) \<and>
   (\<forall>game. db gameId = Some game \<longrightarrow>
      (if player1_id game = Some playerId \<or> player2_id game = Some playerId
       then \<exists>u. makeMove_selected (Some game) playerId choice = Update u \<and>
         makeMove db updateError gameId playerId choice =
           (if updateError then (db, Inl Store_error)
            else (db(gameId \<mapsto> apply_update u game), Inr success)) \<and>
         status (apply_update u game) = status game \<and>
         (\<forall>s. makeMove_selected (Some (game\<lparr>status := s\<rparr>)) playerId choice = Update u \<and>
           makeMove (db(gameId \<mapsto> game\<lparr>status := s\<rparr>)) False gameId playerId choice =
             (db(gameId \<mapsto> (apply_update u game)\<lparr>status := s\<rparr>), Inr success)) \<and>
         (if player1_id game = Some playerId
          then player2_choice game = None \<longrightarrow>
            player1_choice (apply_update u game) = Some choice
          else player1_choice game = None \<longrightarrow>
            player2_choice (apply_update u game) = Some choice)
       else makeMove_selected (db gameId) playerId choice = Return (Inl Invalid_player) \<and>
         makeMove db updateError gameId playerId choice = (db, Inl Invalid_player)))"
proof (intro conjI allI impI)
  assume "db gameId = None"
  then show "makeMove_selected (db gameId) playerId choice = Return (Inl Game_not_found)"
    by (simp add: makeMove_selected_def)
next
  assume "db gameId = None"
  then show "makeMove db updateError gameId playerId choice = (db, Inl Game_not_found)"
    by (rule makeMove_not_found)
next
  fix game
  assume row: "db gameId = Some game"
  show "if player1_id game = Some playerId \<or> player2_id game = Some playerId
       then \<exists>u. makeMove_selected (Some game) playerId choice = Update u \<and>
         makeMove db updateError gameId playerId choice =
           (if updateError then (db, Inl Store_error)
            else (db(gameId \<mapsto> apply_update u game), Inr success)) \<and>
         status (apply_update u game) = status game \<and>
         (\<forall>s. makeMove_selected (Some (game\<lparr>status := s\<rparr>)) playerId choice = Update u \<and>
           makeMove (db(gameId \<mapsto> game\<lparr>status := s\<rparr>)) False gameId playerId choice =
             (db(gameId \<mapsto> (apply_update u game)\<lparr>status := s\<rparr>), Inr success)) \<and>
         (if player1_id game = Some playerId
          then player2_choice game = None \<longrightarrow>
            player1_choice (apply_update u game) = Some choice
          else player1_choice game = None \<longrightarrow>
            player2_choice (apply_update u game) = Some choice)
       else makeMove_selected (db gameId) playerId choice = Return (Inl Invalid_player) \<and>
         makeMove db updateError gameId playerId choice = (db, Inl Invalid_player)"
  proof (cases "player1_id game = Some playerId \<or> player2_id game = Some playerId")
    case False
    then have "makeMove_selected (db gameId) playerId choice = Return (Inl Invalid_player)"
      using row by (simp add: makeMove_selected_def)
    moreover have "makeMove db updateError gameId playerId choice = (db, Inl Invalid_player)"
      using row False by (simp add: makeMove_invalid_player)
    ultimately show ?thesis using False by simp
  next
    case True
    from makeMove_selected_bound [OF True] obtain u
      where sel: "makeMove_selected (Some game) playerId choice = Update u" ..
    have mv: "makeMove db updateError gameId playerId choice =
        (if updateError then (db, Inl Store_error)
         else (db(gameId \<mapsto> apply_update u game), Inr success))"
      using row sel by (rule makeMove_update)
    from makeMove_update_keeps_status [OF sel] have keep: "upd_status u = None" by simp
    then have st: "status (apply_update u game) = status game"
      by (simp add: apply_update_def assign_def)
    have any: "makeMove_selected (Some (game\<lparr>status := s\<rparr>)) playerId choice = Update u \<and>
        makeMove (db(gameId \<mapsto> game\<lparr>status := s\<rparr>)) False gameId playerId choice =
        (db(gameId \<mapsto> (apply_update u game)\<lparr>status := s\<rparr>), Inr success)" for s
      using sel keep
      by (simp add: makeMove_def makeMove_finish_def makeMove_selected_status update_eq_id_def
          apply_update_def assign_def)
    have rec1: "player1_choice (apply_update u game) = Some choice"
      if "player1_id game = Some playerId" "player2_choice game = None"
      using sel that resolve_player1_waits [of game choice]
      by (auto simp: makeMove_selected_def)
    have rec2: "player2_choice (apply_update u game) = Some choice"
      if "player1_id game \<noteq> Some playerId" "player1_choice game = None"
      using sel that True resolve_player2_waits [of game choice]
      by (auto simp: makeMove_selected_def)
    from sel mv st any rec1 rec2 True show ?thesis by auto
  qed
qed

theorem makeMove_accepts_any_status_witness:
  "makeMove lobby_db False ''h'' ''u1'' rock = (lobby_db, Inl Game_not_found) \<and>
   makeMove lobby_db False ''g'' ''u2'' rock = (lobby_db, Inl Invalid_player) \<and>
   makeMove lobby_db True ''g'' ''u1'' rock = (lobby_db, Inl Store_error) \<and>
   (\<exists>game'. makeMove lobby_db False ''g'' ''u1'' rock =
        (lobby_db(''g'' \<mapsto> game'), Inr success) \<and>
      status game' = waiting \<and> player1_choice game' = Some rock) \<and>
   (\<exists>game'. makeMove (lobby_db(''g'' \<mapsto> (the (lobby_db ''g''))\<lparr>status := finished\<rparr>))
        False ''g'' ''u1'' rock = (lobby_db(''g'' \<mapsto> game'), Inr success) \<and>
      status game' = finished \<and> player1_choice game' = Some rock)"
proof -
  have found: "lobby_db ''g'' = Some (the (lobby_db ''g''))"
    and missing: "lobby_db ''h'' = None"
    and player1: "player1_id (the (lobby_db ''g'')) = Some ''u1''"
    and stranger: "player1_id (the (lobby_db ''g'')) \<noteq> Some ''u2''"
      "player2_id (the (lobby_db ''g'')) \<noteq> Some ''u2''"
    and waits: "status (the (lobby_db ''g'')) = waiting"
      "player2_choice (the (lobby_db ''g'')) = None"
    by (simp_all add: lobby_db_def)
  from makeMove_accepts_any_status [of lobby_db "''h''" "''u1''" rock False] missing
  have c1: "makeMove lobby_db False ''h'' ''u1'' rock = (lobby_db, Inl Game_not_found)"
    by simp
  from makeMove_accepts_any_status [of lobby_db "''g''" "''u2''" rock False] found stranger
  have c2: "makeMove lobby_db False ''g'' ''u2'' rock = (lobby_db, Inl Invalid_player)"
    by auto
  from makeMove_accepts_any_status [of lobby_db "''g''" "''u1''" rock True] found player1
  have c3: "makeMove lobby_db True ''g'' ''u1'' rock = (lobby_db, Inl Store_error)"
    by auto
  from makeMove_accepts_any_status [of lobby_db "''g''" "''u1''" rock False] found player1
  obtain u where u: "makeMove lobby_db False ''g'' ''u1'' rock =
        (lobby_db(''g'' \<mapsto> apply_update u (the (lobby_db ''g''))), Inr success)"
      "status (apply_update u (the (lobby_db ''g''))) = status (the (lobby_db ''g''))"
      "\<And>s. makeMove (lobby_db(''g'' \<mapsto> (the (lobby_db ''g''))\<lparr>status := s\<rparr>))
          False ''g'' ''u1'' rock =
        (lobby_db(''g'' \<mapsto> (apply_update u (the (lobby_db ''g'')))\<lparr>status := s\<rparr>),
         Inr success)"
      "player1_choice (apply_update u (the (lobby_db ''g''))) = Some rock"
    using waits by auto
  from u(1,2,4) waits
  have c4: "\<exists>game'. makeMove lobby_db False ''g'' ''u1'' rock =
        (lobby_db(''g'' \<mapsto> game'), Inr success) \<and>
      status game' = waiting \<and> player1_choice game' = Some rock"
    by (intro exI [of _ "apply_update u (the (lobby_db ''g''))"]) simp
  from u(3) [of finished] u(4)
  have c5: "\<exists>game'. makeMove (lobby_db(''g'' \<mapsto> (the (lobby_db ''g''))\<lparr>status := finished\<rparr>))
        False ''g'' ''u1'' rock = (lobby_db(''g'' \<mapsto> game'), Inr success) \<and>
      status game' = finished \<and> player1_choice game' = Some rock"
    by (intro exI [of _ "(apply_update u (the (lobby_db ''g'')))\<lparr>status := finished\<rparr>"]) simp
  from c1 c2 c3 c4 c5 show ?thesis by blast
qed

section \<open>Properties of \<open>createGame\<close> and \<open>resetGame\<close>\<close>

text \<open>
  Claim C9. When the store accepts the insert, \<open>createGame\<close> adds a row with the
  requester as player 1, status \<open>waiting\<close>, both scores 0 and no second player, no
  choices and no result, and returns the new id with player number 1. (The requester and
  the status are what the code inserts; the other columns are the defaults.)
\<close>

theorem createGame_new_match:
  assumes "db newId = None"
  shows "createGame db newId userId =
    (db(newId \<mapsto> \<lparr>player1_id = Some userId, player2_id = None,
        player1_choice = None, player2_choice = None,
        player1_score = 0, player2_score = 0,
        last_result = None, status = waiting\<rparr>),
     Inr \<lparr>joined_gameId = newId, joined_playerId = userId, joined_playerNumber = 1\<rparr>)"
  using assms by (simp add: createGame_def column_defaults_def)

theorem createGame_new_match_witness:
  "createGame Map.empty ''g'' ''u1'' = (lobby_db,
     Inr \<lparr>joined_gameId = ''g'', joined_playerId = ''u1'', joined_playerNumber = 1\<rparr>)"
  using createGame_new_match [of Map.empty "''g''" "''u1''"]
  by (simp add: lobby_db_def)

lemma resetGame_not_found:
  "db gameId = None \<Longrightarrow> resetGame db updateError gameId = (db, Inl Game_not_found)"
  by (simp add: resetGame_def resetGame_selected_def)

lemma resetGame_found:
  assumes "db gameId = Some game"
  shows "resetGame db updateError gameId =
    (if updateError then (db, Inl Store_error)
     else (db(gameId \<mapsto> game\<lparr>player1_choice := None, player2_choice := None,
        player1_score := 0, player2_score := 0, last_result := None,
        status := (if truthy (player2_id game) then playing else waiting)\<rparr>), Inr success))"
  using assms by (simp add: resetGame_def resetGame_selected_def store_defs)

text \<open>
  Claim C7, as stated, fails where player 2 is set to the empty string, which is what
  \<open>joinGame\<close> binds for a requester with that identifier: line 174 tests
  \<open>game.player2_id\<close> for truthiness, so the status is \<open>waiting\<close>, not \<open>playing\<close>.
\<close>

theorem resetGame_empty_id_counterexample:
  "joinGame lobby_db ''g'' [] =
     (empty_id_db,
      Inr \<lparr>joined_gameId = ''g'', joined_playerId = [], joined_playerNumber = 2\<rparr>) \<and>
   player2_id (the (empty_id_db ''g'')) = Some [] \<and>
   resetGame empty_id_db False ''g'' =
     (empty_id_db(''g'' \<mapsto> \<lparr>player1_id = Some ''u1'', player2_id = Some [],
        player1_choice = None, player2_choice = None,
        player1_score = 0, player2_score = 0,
        last_result = None, status = waiting\<rparr>),
      Inr success)"
  by (simp add: lobby_db_def empty_id_db_def joinGame_def joinGame_selected_def
      joinGame_finish_def resetGame_def resetGame_selected_def truthy_def store_defs)

text \<open>
  Claim C7, amended. \<open>resetGame\<close> fails with "Game not found" on a missing game. On an
  existing game, when the store carries the update out, it writes exactly the two
  choices, the two scores, \<open>last_result\<close> and \<open>status\<close>: choices and result cleared,
  scores 0, status \<open>playing\<close> if player 2 is a non-empty identifier and \<open>waiting\<close> if it
  is \<open>null\<close> or the empty string. The two player ids and every other game stay as they
  are. When the store answers the update with an error, that error is returned and the
  table is unchanged.
\<close>

theorem resetGame_frame:
  "resetGame db updateError gameId =
     (case db gameId of
        None \<Rightarrow> (db, Inl Game_not_found)
      | Some game \<Rightarrow>
          if updateError then (db, Inl Store_error)
          else
            (db(gameId \<mapsto> game\<lparr>player1_choice := None, player2_choice := None,
               player1_score := 0, player2_score := 0, last_result := None,
               status := (case player2_id game of
                   None \<Rightarrow> waiting
                 | Some user \<Rightarrow> if user = [] then waiting else playing)\<rparr>),
             Inr success)) \<and>
   (\<forall>game. db gameId = Some game \<and> \<not> updateError \<longrightarrow>
      (\<exists>game'. fst (resetGame db updateError gameId) gameId = Some game' \<and>
         player1_id game' = player1_id game \<and> player2_id game' = player2_id game \<and>
         player1_choice game' = None \<and> player2_choice game' = None \<and>
         player1_score game' = 0 \<and> player2_score game' = 0 \<and> last_result game' = None \<and>
         status game' = (if truthy (player2_id game) then playing else waiting))) \<and>
   (\<forall>other. other \<noteq> gameId \<longrightarrow> fst (resetGame db updateError gameId) other = db other)"
proof (cases "db gameId")
  case None
  then show ?thesis by (simp add: resetGame_not_found)
next
  case (Some game)
  have "(if truthy (player2_id game) then playing else waiting) =
      (case player2_id game of None \<Rightarrow> waiting
       | Some user \<Rightarrow> if user = [] then waiting else playing)"
    by (simp add: truthy_def split: option.splits)
  with resetGame_found [of db gameId game updateError, OF Some] Some show ?thesis
    by (cases updateError) simp_all
qed

theorem resetGame_frame_witness:
  "resetGame round_db False ''g'' =
     (round_db(''g'' \<mapsto> \<lparr>player1_id = Some ''u1'', player2_id = Some ''u2'',
        player1_choice = None, player2_choice = None,
        player1_score = 0, player2_score = 0,
        last_result = None, status = playing\<rparr>),
      Inr success) \<and>
   resetGame round_db False ''h'' = (round_db, Inl Game_not_found) \<and>
   resetGame round_db True ''g'' = (round_db, Inl Store_error) \<and>
   (\<exists>game'. fst (resetGame lobby_db False ''g'') ''g'' = Some game' \<and> status game' = waiting \<and>
      player1_id game' = Some ''u1'' \<and> player2_id game' = None)"
  using resetGame_frame [of round_db False "''g''"] resetGame_frame [of round_db False "''h''"]
    resetGame_frame [of round_db True "''g''"] resetGame_frame [of lobby_db False "''g''"]
  by (auto simp: round_db_def lobby_db_def truthy_def)

section \<open>Properties of \<open>joinGame\<close>\<close>

lemma joinGame_not_found:
  "db gameId = None \<Longrightarrow> joinGame db gameId userId = (db, Inl Game_not_found)"
  by (simp add: joinGame_def joinGame_selected_def joinGame_finish_def)

lemma joinGame_already:
  assumes "db gameId = Some game"
    and "player1_id game = Some userId \<or> player2_id game = Some userId"
  shows "joinGame db gameId userId = (db, Inr \<lparr>joined_gameId = gameId, joined_playerId = userId,
      joined_playerNumber = (if player1_id game = Some userId then 1 else 2)\<rparr>)"
  using assms by (auto simp: joinGame_def joinGame_selected_def joinGame_finish_def)

lemma joinGame_full:
  assumes "db gameId = Some game"
    and "player1_id game \<noteq> Some userId" and "player2_id game \<noteq> Some userId"
    and "truthy (player2_id game)"
  shows "joinGame db gameId userId = (db, Inl Game_is_already_full)"
  using assms by (simp add: joinGame_def joinGame_selected_def joinGame_finish_def)

lemma joinGame_binds:
  assumes "db gameId = Some game"
    and "player1_id game \<noteq> Some userId" and "player2_id game \<noteq> Some userId"
    and "\<not> truthy (player2_id game)"
  shows "joinGame db gameId userId =
    (db(gameId \<mapsto> game\<lparr>player2_id := Some userId, status := playing\<rparr>),
     Inr \<lparr>joined_gameId = gameId, joined_playerId = userId, joined_playerNumber = 2\<rparr>)"
  using assms
  by (simp add: joinGame_def joinGame_selected_def joinGame_finish_def store_defs)

text \<open>
  Claim C6. For a requester who already is player 1 or player 2 of the game,
  \<open>joinGame\<close> returns the player number of that slot (1 for player 1, otherwise 2)
  without an update, so the table is unchanged, and a second call gives the same answer.
\<close>

theorem joinGame_idempotent:
  assumes "db gameId = Some game"
    and "player1_id game = Some userId \<or> player2_id game = Some userId"
  shows "joinGame db gameId userId =
      (db, Inr \<lparr>joined_gameId = gameId, joined_playerId = userId,
         joined_playerNumber = (if player1_id game = Some userId then 1 else 2)\<rparr>) \<and>
    joinGame_selected (db gameId) gameId userId =
      Return (Inr \<lparr>joined_gameId = gameId, joined_playerId = userId,
         joined_playerNumber = (if player1_id game = Some userId then 1 else 2)\<rparr>) \<and>
    joinGame (fst (joinGame db gameId userId)) gameId userId = joinGame db gameId userId"
proof -
  have once: "joinGame db gameId userId =
      (db, Inr \<lparr>joined_gameId = gameId, joined_playerId = userId,
         joined_playerNumber = (if player1_id game = Some userId then 1 else 2)\<rparr>)"
    using assms by (rule joinGame_already)
  have sel: "joinGame_selected (db gameId) gameId userId =
      Return (Inr \<lparr>joined_gameId = gameId, joined_playerId = userId,
         joined_playerNumber = (if player1_id game = Some userId then 1 else 2)\<rparr>)"
    using assms by (auto simp: joinGame_selected_def)
  from once sel show ?thesis by simp
qed

theorem joinGame_idempotent_witness:
  "joinGame full_db ''g'' ''u1'' =
     (full_db, Inr \<lparr>joined_gameId = ''g'', joined_playerId = ''u1'', joined_playerNumber = 1\<rparr>) \<and>
   joinGame full_db ''g'' ''u2'' =
     (full_db, Inr \<lparr>joined_gameId = ''g'', joined_playerId = ''u2'', joined_playerNumber = 2\<rparr>)"
  using joinGame_idempotent [of full_db "''g''" "the (full_db ''g'')" "''u1''"]
    joinGame_idempotent [of full_db "''g''" "the (full_db ''g'')" "''u2''"]
  by (simp add: full_db_def)

text \<open>
  The second call repeats the answer also after a call that has just bound the
  requester to slot 2.
\<close>

lemma joinGame_again:
  assumes "joinGame db gameId userId = (db1, Inr r)"
  shows "joinGame db1 gameId userId = (db1, Inr r)"
proof (cases "db gameId")
  case None
  with assms show ?thesis by (simp add: joinGame_not_found)
next
  case (Some game)
  show ?thesis
  proof (cases "player1_id game = Some userId \<or> player2_id game = Some userId")
    case True
    from joinGame_already [of db gameId game userId, OF Some True] assms show ?thesis by simp
  next
    case False
    show ?thesis
    proof (cases "truthy (player2_id game)")
      case True
      with joinGame_full [of db gameId game userId] Some False assms show ?thesis by simp
    next
      case empty: False
      from joinGame_binds [of db gameId game userId] Some False empty assms
      have db1: "db1 = db(gameId \<mapsto> game\<lparr>player2_id := Some userId, status := playing\<rparr>)"
        and r: "r = \<lparr>joined_gameId = gameId, joined_playerId = userId, joined_playerNumber = 2\<rparr>"
        by simp_all
      have "joinGame db1 gameId userId = (db1, Inr \<lparr>joined_gameId = gameId,
          joined_playerId = userId, joined_playerNumber =
            (if player1_id (game\<lparr>player2_id := Some userId, status := playing\<rparr>) = Some userId
             then 1 else 2)\<rparr>)"
        by (rule joinGame_already) (simp_all add: db1)
      with False r show ?thesis by simp
    qed
  qed
qed




subsection \<open>Two requesters for one empty slot\<close>

text \<open>The two steps of one call, run without interruption, are the call.\<close>

lemma joinGame_two_steps:
  "joinGame_interleaved gameId user1 user2 [First, First] (db, Not_started, p2) =
     (fst (joinGame db gameId user1), Finished (snd (joinGame db gameId user1)), p2)"
  "joinGame_interleaved gameId user1 user2 [Second, Second] (db, p1, Not_started) =
     (fst (joinGame db gameId user2), p1, Finished (snd (joinGame db gameId user2)))"
  by (simp_all add: joinGame_advance_def joinGame_def split: prod.splits)








end
